theory Spec2Isabelle
  imports Main
begin

section \<open>Texts\<close>

text \<open>
  Python strings are kept as their UTF-8 bytes, so the literals of \<^verbatim>\<open>server.py\<close> that
  hold emoji are the byte sequences of those code points. Splitting on a line feed,
  joining, concatenating and testing a one-byte ASCII prefix act on the bytes the way
  Python acts on the code points.
\<close>

definition nl :: char where
  "nl = CHR 0x0A"

text \<open>\<^verbatim>\<open>s.split(sep)\<close> for a one-character separator: an empty text gives one empty field.\<close>

fun str_split :: "char \<Rightarrow> string \<Rightarrow> string list" where
  "str_split sep [] = [[]]"
| "str_split sep (c # cs) =
     (if c = sep then [] # str_split sep cs
      else (case str_split sep cs of
              [] \<Rightarrow> [[c]]
            | l # ls \<Rightarrow> (c # l) # ls))"

text \<open>\<^verbatim>\<open>sep.join(xs)\<close>.\<close>

fun str_join :: "string \<Rightarrow> string list \<Rightarrow> string" where
  "str_join sep [] = []"
| "str_join sep [x] = x"
| "str_join sep (x # y # ys) = x @ sep @ str_join sep (y # ys)"

text \<open>
  The characters \<^verbatim>\<open>str.strip()\<close> removes, each as its UTF-8 encoding: U+0009 to U+000D,
  U+001C to U+0020, U+0085, U+00A0, U+1680, U+2000 to U+200A, U+2028, U+2029, U+202F,
  U+205F and U+3000.
\<close>

definition whitespace :: "string list" where
  "whitespace =
     [[CHR 0x09], [CHR 0x0A], [CHR 0x0B], [CHR 0x0C], [CHR 0x0D],
      [CHR 0x1C], [CHR 0x1D], [CHR 0x1E], [CHR 0x1F], [CHR 0x20],
      [CHR 0xC2, CHR 0x85], [CHR 0xC2, CHR 0xA0],
      [CHR 0xE1, CHR 0x9A, CHR 0x80],
      [CHR 0xE2, CHR 0x80, CHR 0x80], [CHR 0xE2, CHR 0x80, CHR 0x81],
      [CHR 0xE2, CHR 0x80, CHR 0x82], [CHR 0xE2, CHR 0x80, CHR 0x83],
      [CHR 0xE2, CHR 0x80, CHR 0x84], [CHR 0xE2, CHR 0x80, CHR 0x85],
      [CHR 0xE2, CHR 0x80, CHR 0x86], [CHR 0xE2, CHR 0x80, CHR 0x87],
      [CHR 0xE2, CHR 0x80, CHR 0x88], [CHR 0xE2, CHR 0x80, CHR 0x89],
      [CHR 0xE2, CHR 0x80, CHR 0x8A],
      [CHR 0xE2, CHR 0x80, CHR 0xA8], [CHR 0xE2, CHR 0x80, CHR 0xA9],
      [CHR 0xE2, CHR 0x80, CHR 0xAF], [CHR 0xE2, CHR 0x81, CHR 0x9F],
      [CHR 0xE3, CHR 0x80, CHR 0x80]]"

text \<open>The number of bytes of the pattern that \<open>s\<close> starts with, 0 when it starts with none.\<close>

definition space_len :: "string list \<Rightarrow> string \<Rightarrow> nat" where
  "space_len ps s =
     (case find (\<lambda>p. take (length p) s = p) ps of
        None \<Rightarrow> 0
      | Some p \<Rightarrow> length p)"

fun strip_lead :: "string list \<Rightarrow> string \<Rightarrow> string" where
  "strip_lead ps [] = []"
| "strip_lead ps (c # cs) =
     (case space_len ps (c # cs) of
        0 \<Rightarrow> c # cs
      | Suc n \<Rightarrow> strip_lead ps (drop n cs))"

definition lstrip :: "string \<Rightarrow> string" where
  "lstrip s = strip_lead whitespace s"

definition rstrip :: "string \<Rightarrow> string" where
  "rstrip s = rev (strip_lead (map rev whitespace) (rev s))"

definition strip :: "string \<Rightarrow> string" where
  "strip s = lstrip (rstrip s)"

text \<open>\<^verbatim>\<open>s.startswith(p)\<close>.\<close>

definition startswith :: "string \<Rightarrow> string \<Rightarrow> bool" where
  "startswith s p = (take (length p) s = p)"

text \<open>\<^verbatim>\<open>str(n)\<close> for a natural number, used by the f-string that numbers conversations.\<close>

fun str_nat :: "nat \<Rightarrow> string" where
  "str_nat n =
     (if n < 10 then [char_of (48 + n)]
      else str_nat (n div 10) @ [char_of (48 + n mod 10)])"

text \<open>
  \<^verbatim>\<open>s.capitalize()\<close> on ASCII letters: the first character in upper case, the others in
  lower case. The roles this program writes are the ASCII words \<^verbatim>\<open>user\<close> and
  \<^verbatim>\<open>assistant\<close>; bytes outside the ASCII letters are left as they are.
\<close>

definition upper_char :: "char \<Rightarrow> char" where
  "upper_char c =
     (let n = (of_char c :: nat) in if 97 \<le> n \<and> n \<le> 122 then char_of (n - 32) else c)"

definition lower_char :: "char \<Rightarrow> char" where
  "lower_char c =
     (let n = (of_char c :: nat) in if 65 \<le> n \<and> n \<le> 90 then char_of (n + 32) else c)"

fun capitalize :: "string \<Rightarrow> string" where
  "capitalize [] = []"
| "capitalize (c # cs) = upper_char c # map lower_char cs"

section \<open>Data model\<close>

text \<open>
  A timestamp is the instant \<^verbatim>\<open>datetime.now(timezone.utc)\<close> returned, counted in
  microseconds. The store keeps its \<^verbatim>\<open>isoformat()\<close> text; for UTC instants the order of
  these texts is the order of the instants (fixed-width fields, and \<^verbatim>\<open>+\<close> sorts before
  \<^verbatim>\<open>.\<close> when the microseconds are omitted), so sorting by the stored text and sorting
  by the parsed value are both sorting by the instant.
\<close>

type_synonym timestamp = nat

record message =
  msg_id :: string
  conversation_id :: string
  role :: string
  content :: string
  timestamp :: timestamp
  reactions :: "string list"
  bookmarked :: bool

record conversation =
  conv_id :: string
  title :: string
  status :: string
  summary :: "string option"
  start_time :: timestamp
  end_time :: "timestamp option"
  share_token :: "string option"

text \<open>
  One request to the LLM client: \<^verbatim>\<open>LlmChat(session_id, system_message)\<close> followed by
  \<^verbatim>\<open>send_message(UserMessage(text=prompt))\<close>. The gateway answers with the response text
  (\<open>Inr\<close>) or raises (\<open>Inl\<close>, carrying \<^verbatim>\<open>str(e)\<close>).
\<close>

record llm_request =
  session_id :: string
  system_message :: string
  prompt :: string

type_synonym gateway = "llm_request \<Rightarrow> string + string"

text \<open>
  The two collections in insertion order, and the requests sent to the gateway so far.
\<close>

record world =
  conversations :: "conversation list"
  messages :: "message list"
  llm_calls :: "llm_request list"

definition empty_world :: world where
  "empty_world = \<lparr>conversations = [], messages = [], llm_calls = []\<rparr>"

datatype failure = HTTPException nat string | Unhandled string

section \<open>Store and gateway primitives\<close>

text \<open>\<^verbatim>\<open>find(filter).to_list(n)\<close>: the first \<open>n\<close> matching documents in store order.\<close>

definition to_list :: "nat \<Rightarrow> 'a list \<Rightarrow> 'a list" where
  "to_list n xs = take n xs"

text \<open>\<^verbatim>\<open>update_one(filter, {"$set": ...})\<close>: the first matching document is changed.\<close>

fun update_one :: "('a \<Rightarrow> bool) \<Rightarrow> ('a \<Rightarrow> 'a) \<Rightarrow> 'a list \<Rightarrow> 'a list" where
  "update_one p f [] = []"
| "update_one p f (x # xs) = (if p x then f x # xs else x # update_one p f xs)"

text \<open>\<^verbatim>\<open>xs.sort(key=f, reverse=True)\<close>: descending, equal keys keep their order.\<close>

definition sort_desc :: "('a \<Rightarrow> 'k::linorder) \<Rightarrow> 'a list \<Rightarrow> 'a list" where
  "sort_desc f xs = rev (sort_key f (rev xs))"

definition chat_send :: "gateway \<Rightarrow> llm_request \<Rightarrow> world \<Rightarrow> (string + string) \<times> world" where
  "chat_send llm req w = (llm req, w\<lparr>llm_calls := llm_calls w @ [req]\<rparr>)"

definition find_messages :: "string \<Rightarrow> world \<Rightarrow> message list" where
  "find_messages cid w = to_list 1000 (filter (\<lambda>m. conversation_id m = cid) (messages w))"

section \<open>LLM helpers\<close>

text \<open>
  The request of \<^verbatim>\<open>call_llm\<close>: one session per conversation, and only the content of
  the last message of the history as the prompt (the empty text for an empty history).
\<close>

definition reply_request :: "(string \<times> string) list \<Rightarrow> string \<Rightarrow> llm_request" where
  "reply_request msgs cid =
     (let last_content = (if msgs = [] then [] else snd (last msgs))
      in \<lparr>session_id = cid,
          system_message = ''You are a helpful, friendly AI assistant. Provide clear and concise responses.'',
          prompt = last_content\<rparr>)"

definition call_llm :: "gateway \<Rightarrow> (string \<times> string) list \<Rightarrow> string \<Rightarrow> world \<Rightarrow> string \<times> world" where
  "call_llm llm msgs cid w =
     (case chat_send llm (reply_request msgs cid) w of
        (Inr response, w') \<Rightarrow> (response, w')
      | (Inl e, w') \<Rightarrow> (''Error generating response: '' @ e, w'))"

definition default_suggestions :: "string list" where
  "default_suggestions =
     [''Tell me about yourself'', ''What can you help me with?'', ''Explain a complex topic simply'']"

definition parse_suggestions :: "string \<Rightarrow> string list" where
  "parse_suggestions response =
     take 3 (map strip
       (filter (\<lambda>s. strip s \<noteq> [] \<and> \<not> startswith (strip s) ''#'') (str_split nl response)))"

definition suggestions_request :: "string \<Rightarrow> (string \<times> string) list \<Rightarrow> llm_request" where
  "suggestions_request uuid history =
     (let recent = (if length history \<ge> 3 then drop (length history - 3) history else history);
          context = str_join [nl] (map (\<lambda>(r, c). r @ '': '' @ c) recent)
      in \<lparr>session_id = ''suggestions_'' @ uuid,
          system_message = ''Generate 3 brief follow-up questions (max 8 words each) based on the conversation. Return only the questions, one per line.'',
          prompt = ''Recent conversation:'' @ [nl] @ context @ [nl, nl]
                     @ ''Generate 3 relevant follow-up questions:''\<rparr>)"

definition generate_suggestions ::
  "gateway \<Rightarrow> string \<Rightarrow> (string \<times> string) list \<Rightarrow> world \<Rightarrow> string list \<times> world" where
  "generate_suggestions llm uuid history w =
     (if history = [] then (default_suggestions, w)
      else
        case chat_send llm (suggestions_request uuid history) w of
          (Inr response, w') \<Rightarrow> (parse_suggestions response, w')
        | (Inl e, w') \<Rightarrow> ([], w'))"

section \<open>Conversation endpoints\<close>

definition get_conversations :: "world \<Rightarrow> (failure + conversation list) \<times> world" where
  "get_conversations w =
     (let convs = to_list 1000 (conversations w)
      in (Inr (sort_desc start_time convs), w))"

definition get_conversation ::
  "gateway \<Rightarrow> string \<Rightarrow> string \<Rightarrow> world
     \<Rightarrow> (failure + conversation \<times> message list \<times> string list) \<times> world" where
  "get_conversation llm uuid cid w =
     (case find (\<lambda>c. conv_id c = cid) (conversations w) of
        None \<Rightarrow> (Inl (HTTPException 404 ''Conversation not found''), w)
      | Some conv \<Rightarrow>
          let msgs = sort_key timestamp (find_messages cid w)
          in if status conv = ''active'' \<and> msgs \<noteq> [] then
               (let msg_history = map (\<lambda>m. (role m, content m)) msgs;
                    (suggestions, w') = generate_suggestions llm uuid msg_history w
                in (Inr (conv, msgs, suggestions), w'))
             else (Inr (conv, msgs, []), w))"

definition create_conversation ::
  "string \<Rightarrow> timestamp \<Rightarrow> string \<Rightarrow> world \<Rightarrow> (failure + conversation) \<times> world" where
  "create_conversation uuid now input_title w =
     (let conv = \<lparr>conv_id = uuid, title = input_title, status = ''active'', summary = None,
                   start_time = now, end_time = None, share_token = None\<rparr>
      in (Inr conv, w\<lparr>conversations := conversations w @ [conv]\<rparr>))"

definition send_message ::
  "gateway \<Rightarrow> string \<Rightarrow> timestamp \<Rightarrow> string \<Rightarrow> timestamp \<Rightarrow> string \<Rightarrow> string \<Rightarrow> world
     \<Rightarrow> (failure + message) \<times> world" where
  "send_message llm uuid1 now1 uuid2 now2 cid input_content w =
     (case find (\<lambda>c. conv_id c = cid) (conversations w) of
        None \<Rightarrow> (Inl (HTTPException 404 ''Conversation not found''), w)
      | Some conv \<Rightarrow>
          if status conv \<noteq> ''active'' then
            (Inl (HTTPException 400 ''Conversation has ended''), w)
          else
            let user_msg = \<lparr>msg_id = uuid1, conversation_id = cid, role = ''user'',
                            content = input_content, timestamp = now1, reactions = [],
                            bookmarked = False\<rparr>;
                w1 = w\<lparr>messages := messages w @ [user_msg]\<rparr>;
                msgs = find_messages cid w1;
                lm_messages = map (\<lambda>m. (role m, content m)) (sort_key timestamp msgs);
                (ai_response, w2) = call_llm llm lm_messages cid w1;
                ai_msg = \<lparr>msg_id = uuid2, conversation_id = cid, role = ''assistant'',
                          content = ai_response, timestamp = now2, reactions = [],
                          bookmarked = False\<rparr>
            in (Inr ai_msg, w2\<lparr>messages := messages w2 @ [ai_msg]\<rparr>))"

text \<open>The request of the summarizer, and the summary kept for its outcome.\<close>

definition summary_request :: "string \<Rightarrow> message list \<Rightarrow> llm_request" where
  "summary_request cid msgs =
     (let conversation_text =
            str_join [nl] (map (\<lambda>m. role m @ '': '' @ content m) (sort_key timestamp msgs))
      in \<lparr>session_id = ''summary_'' @ cid,
          system_message = ''You summarize conversations concisely, highlighting key points and topics discussed.'',
          prompt = ''Summarize this conversation in 2-3 sentences:'' @ [nl, nl]
                     @ conversation_text\<rparr>)"

definition summary_text :: "string + string \<Rightarrow> string" where
  "summary_text r =
     (case r of Inr response \<Rightarrow> response | Inl e \<Rightarrow> ''Error generating summary: '' @ e)"

text \<open>The \<^verbatim>\<open>$set\<close> of \<^verbatim>\<open>end_conversation\<close>.\<close>

definition set_ended :: "string \<Rightarrow> timestamp \<Rightarrow> conversation \<Rightarrow> conversation" where
  "set_ended s now c = c\<lparr>status := ''ended'', summary := Some s, end_time := Some now\<rparr>"

definition end_conversation ::
  "gateway \<Rightarrow> timestamp \<Rightarrow> string \<Rightarrow> world \<Rightarrow> (failure + conversation) \<times> world" where
  "end_conversation llm now cid w =
     (case find (\<lambda>c. conv_id c = cid) (conversations w) of
        None \<Rightarrow> (Inl (HTTPException 404 ''Conversation not found''), w)
      | Some conv \<Rightarrow>
          if status conv = ''ended'' then
            (Inl (HTTPException 400 ''Conversation already ended''), w)
          else
            let msgs = find_messages cid w;
                (r, w1) = chat_send llm (summary_request cid msgs) w;
                s = summary_text r
            in (Inr (set_ended s now conv),
                w1\<lparr>conversations :=
                      update_one (\<lambda>c. conv_id c = cid) (set_ended s now) (conversations w1)\<rparr>))"

record query_response =
  answer :: string
  relevant_conversations :: "conversation list"
  suggestions :: "string list"

text \<open>
  A document of the store always carries the key \<^verbatim>\<open>summary\<close>, so the default of
  \<^verbatim>\<open>conv.get('summary', ...)\<close> is never taken, and the f-string prints a null as
  \<^verbatim>\<open>None\<close>.
\<close>

definition str_opt :: "string option \<Rightarrow> string" where
  "str_opt x = (case x of None \<Rightarrow> ''None'' | Some s \<Rightarrow> s)"

definition query_request :: "string \<Rightarrow> string \<Rightarrow> conversation list \<Rightarrow> llm_request" where
  "query_request uuid input_query convs =
     (let context_parts =
            map (\<lambda>(i, conv). ''Conversation '' @ str_nat i @ '' (Title: '' @ title conv
                                @ ''):'' @ [nl] @ str_opt (summary conv))
                (zip [1 ..< Suc (length convs)] convs);
          context = str_join [nl, nl] context_parts
      in \<lparr>session_id = ''query_'' @ uuid,
          system_message = ''You analyze past conversations and provide insights based on their summaries.'',
          prompt = ''Past conversations:'' @ [nl, nl] @ context @ [nl, nl]
                     @ ''User question: '' @ input_query @ [nl, nl]
                     @ ''Provide a clear answer:''\<rparr>)"

definition answer_text :: "string + string \<Rightarrow> string" where
  "answer_text r =
     (case r of Inr response \<Rightarrow> response | Inl e \<Rightarrow> ''Error processing query: '' @ e)"

definition query_conversations ::
  "gateway \<Rightarrow> string \<Rightarrow> string \<Rightarrow> world \<Rightarrow> (failure + query_response) \<times> world" where
  "query_conversations llm uuid input_query w =
     (let convs = to_list 1000 (filter (\<lambda>c. status c = ''ended'') (conversations w))
      in if convs = [] then
           (Inr \<lparr>answer = ''No past conversations found to analyze.'',
                 relevant_conversations = [], suggestions = []\<rparr>, w)
         else
           let (r, w1) = chat_send llm (query_request uuid input_query convs) w
           in (Inr \<lparr>answer = answer_text r, relevant_conversations = take 5 convs,
                    suggestions = []\<rparr>, w1))"

section \<open>Message reactions and bookmarks\<close>

text \<open>\<^verbatim>\<open>list.remove\<close> deletes the first occurrence, \<^verbatim>\<open>list.append\<close> adds at the end.\<close>

definition toggle :: "string \<Rightarrow> string list \<Rightarrow> string list" where
  "toggle r rs = (if r \<in> set rs then remove1 r rs else rs @ [r])"

definition react_to_message ::
  "string \<Rightarrow> string \<Rightarrow> world \<Rightarrow> (failure + bool \<times> string list) \<times> world" where
  "react_to_message mid reaction w =
     (case find (\<lambda>m. msg_id m = mid) (messages w) of
        None \<Rightarrow> (Inl (HTTPException 404 ''Message not found''), w)
      | Some msg \<Rightarrow>
          let rs = toggle reaction (reactions msg)
          in (Inr (True, rs),
              w\<lparr>messages :=
                   update_one (\<lambda>m. msg_id m = mid) (\<lambda>m. m\<lparr>reactions := rs\<rparr>) (messages w)\<rparr>))"

definition bookmark_message ::
  "string \<Rightarrow> world \<Rightarrow> (failure + bool \<times> bool) \<times> world" where
  "bookmark_message mid w =
     (case find (\<lambda>m. msg_id m = mid) (messages w) of
        None \<Rightarrow> (Inl (HTTPException 404 ''Message not found''), w)
      | Some msg \<Rightarrow>
          let b = \<not> bookmarked msg
          in (Inr (True, b),
              w\<lparr>messages :=
                   update_one (\<lambda>m. msg_id m = mid) (\<lambda>m. m\<lparr>bookmarked := b\<rparr>) (messages w)\<rparr>))"

section \<open>Sharing\<close>

definition share_conversation ::
  "string \<Rightarrow> string \<Rightarrow> world \<Rightarrow> (failure + string \<times> string) \<times> world" where
  "share_conversation uuid cid w =
     (case find (\<lambda>c. conv_id c = cid) (conversations w) of
        None \<Rightarrow> (Inl (HTTPException 404 ''Conversation not found''), w)
      | Some conv \<Rightarrow>
          (Inr (uuid, ''/shared/'' @ uuid),
           w\<lparr>conversations :=
                update_one (\<lambda>c. conv_id c = cid) (\<lambda>c. c\<lparr>share_token := Some uuid\<rparr>)
                  (conversations w)\<rparr>))"

definition get_shared_conversation ::
  "string \<Rightarrow> world \<Rightarrow> (failure + conversation \<times> message list) \<times> world" where
  "get_shared_conversation token w =
     (case find (\<lambda>c. share_token c = Some token) (conversations w) of
        None \<Rightarrow> (Inl (HTTPException 404 ''Shared conversation not found''), w)
      | Some conv \<Rightarrow>
          (Inr (conv, sort_key timestamp (find_messages (conv_id conv) w)), w))"

section \<open>Export\<close>

text \<open>
  The flowables handed to the PDF library: a paragraph with its text and the name of its
  style, and a spacer with its width in points and its height in tenths of an inch.
\<close>

datatype flowable = Paragraph string string | Spacer nat nat

datatype export_response =
    JsonExport conversation "message list"
  | MarkdownExport string
  | FileResponse string string string

text \<open>Python's truth of an optional text: present and not empty.\<close>

definition truthy :: "string option \<Rightarrow> bool" where
  "truthy x = (case x of None \<Rightarrow> False | Some s \<Rightarrow> s \<noteq> [])"

text \<open>
  The body of the loop of the \<^verbatim>\<open>markdown\<close> branch; the icons are U+1F464 and U+1F916,
  the bookmark is U+1F516.
\<close>

definition markdown_message :: "message \<Rightarrow> string" where
  "markdown_message msg =
     (let role_icon = (if role msg = ''user''
                       then [CHR 0xF0, CHR 0x9F, CHR 0x91, CHR 0xA4]
                       else [CHR 0xF0, CHR 0x9F, CHR 0xA4, CHR 0x96])
      in ''### '' @ role_icon @ '' '' @ capitalize (role msg) @ [nl, nl]
         @ content msg @ [nl, nl]
         @ (if bookmarked msg
            then [CHR 0xF0, CHR 0x9F, CHR 0x94, CHR 0x96] @ '' *Bookmarked*'' @ [nl, nl]
            else [])
         @ (if reactions msg \<noteq> []
            then ''Reactions: '' @ str_join '' '' (reactions msg) @ [nl, nl]
            else []))"

text \<open>
  The \<^verbatim>\<open>markdown\<close> branch; \<open>isoformat\<close> is the stored text of a timestamp
  (\<^verbatim>\<open>datetime.isoformat\<close>).
\<close>

definition markdown_content ::
  "(timestamp \<Rightarrow> string) \<Rightarrow> conversation \<Rightarrow> message list \<Rightarrow> string" where
  "markdown_content isoformat conv msgs =
     ''# '' @ title conv @ [nl, nl]
     @ ''**Started:** '' @ isoformat (start_time conv) @ [nl]
     @ (case end_time conv of
          None \<Rightarrow> []
        | Some t \<Rightarrow> ''**Ended:** '' @ isoformat t @ [nl])
     @ (if truthy (summary conv)
        then [nl] @ ''**Summary:** '' @ the (summary conv) @ [nl]
        else [])
     @ [nl] @ ''---'' @ [nl, nl]
     @ concat (map markdown_message msgs)"

text \<open>The \<^verbatim>\<open>pdf\<close> branch up to \<^verbatim>\<open>doc.build\<close>.\<close>

definition pdf_story :: "conversation \<Rightarrow> message list \<Rightarrow> flowable list" where
  "pdf_story conv msgs =
     [Paragraph (title conv) ''CustomTitle'', Spacer 1 2]
     @ (if truthy (summary conv)
        then [Paragraph (''<b>Summary:</b> '' @ the (summary conv)) ''Normal'', Spacer 1 3]
        else [])
     @ concat (map (\<lambda>msg. [Paragraph (''<b>'' @ capitalize (role msg) @ '':</b>'') ''Heading3'',
                             Paragraph (content msg) ''Normal'',
                             Spacer 1 2]) msgs)"

text \<open>
  \<open>build path story\<close> is \<^verbatim>\<open>SimpleDocTemplate(path).build(story)\<close>: \<open>None\<close> when the
  file was written, \<open>Some e\<close> when the library raised; nothing catches that exception.
\<close>

definition export_conversation ::
  "(timestamp \<Rightarrow> string) \<Rightarrow> (string \<Rightarrow> flowable list \<Rightarrow> string option) \<Rightarrow> string \<Rightarrow> string
     \<Rightarrow> world \<Rightarrow> (failure + export_response) \<times> world" where
  "export_conversation isoformat build cid format w =
     (case find (\<lambda>c. conv_id c = cid) (conversations w) of
        None \<Rightarrow> (Inl (HTTPException 404 ''Conversation not found''), w)
      | Some conv \<Rightarrow>
          let msgs = sort_key timestamp (find_messages cid w)
          in if format = ''json'' then (Inr (JsonExport conv msgs), w)
             else if format = ''markdown'' then
               (Inr (MarkdownExport (markdown_content isoformat conv msgs)), w)
             else if format = ''pdf'' then
               (let pdf_path = ''/tmp/conversation_'' @ cid @ ''.pdf''
                in case build pdf_path (pdf_story conv msgs) of
                     Some e \<Rightarrow> (Inl (Unhandled e), w)
                   | None \<Rightarrow>
                       (Inr (FileResponse pdf_path ''application/pdf'' (title conv @ ''.pdf'')), w))
             else (Inl (HTTPException 400 ''Invalid export format''), w))"

section \<open>Reachable stores\<close>

text \<open>
  A call of an endpoint that can change the store or reach the gateway, with everything
  the environment supplies to it: the gateway's behaviour, the fresh identifiers and the
  clock readings.
\<close>

datatype call =
    Create string timestamp string
  | Send gateway string timestamp string timestamp string string
  | End gateway timestamp string
  | React string string
  | Bookmark string
  | Share string string
  | Get gateway string string
  | Query gateway string string

fun step :: "call \<Rightarrow> world \<Rightarrow> world" where
  "step (Create uuid now t) w = snd (create_conversation uuid now t w)"
| "step (Send llm u1 t1 u2 t2 cid c) w = snd (send_message llm u1 t1 u2 t2 cid c w)"
| "step (End llm now cid) w = snd (end_conversation llm now cid w)"
| "step (React mid r) w = snd (react_to_message mid r w)"
| "step (Bookmark mid) w = snd (bookmark_message mid w)"
| "step (Share uuid cid) w = snd (share_conversation uuid cid w)"
| "step (Get llm uuid cid) w = snd (get_conversation llm uuid cid w)"
| "step (Query llm uuid q) w = snd (query_conversations llm uuid q w)"

inductive reachable :: "world \<Rightarrow> bool" where
  init: "reachable empty_world"
| step: "reachable w \<Longrightarrow> reachable (step c w)"

section \<open>Observations and example stores\<close>

text \<open>The three fields of a conversation that the end transition writes.\<close>

definition lifecycle :: "conversation \<Rightarrow> string \<times> string option \<times> timestamp option" where
  "lifecycle c = (status c, summary c, end_time c)"

text \<open>The two shapes a stored conversation can have.\<close>

definition conv_ok :: "conversation \<Rightarrow> bool" where
  "conv_ok c = ((status c = ''active'' \<and> summary c = None \<and> end_time c = None)
               \<or> (status c = ''ended'' \<and> summary c \<noteq> None \<and> end_time c \<noteq> None))"

text \<open>The store cut down to what a capped read can see.\<close>

definition capped_conversations :: "(conversation \<Rightarrow> bool) \<Rightarrow> world \<Rightarrow> world" where
  "capped_conversations p w = w\<lparr>conversations := take 1000 (filter p (conversations w))\<rparr>"

definition capped_messages :: "string \<Rightarrow> world \<Rightarrow> world" where
  "capped_messages cid w =
     w\<lparr>messages := take 1000 (filter (\<lambda>m. conversation_id m = cid) (messages w))\<rparr>"

text \<open>
  The parsing of suggestions as the specification words it: split on line breaks, discard
  blank lines and lines beginning with \<^verbatim>\<open>#\<close>, keep at most the first three lines.
\<close>

definition spec_parse_suggestions :: "string \<Rightarrow> string list" where
  "spec_parse_suggestions response =
     take 3 (filter (\<lambda>l. strip l \<noteq> [] \<and> \<not> startswith l ''#'') (str_split nl response))"

text \<open>The format selectors as the specification lists them.\<close>

definition spec_formats :: "string set" where
  "spec_formats = {''json'', ''markdown'', ''document''}"

text \<open>
  A store after creating the conversation \<^verbatim>\<open>Demo\<close>, after one exchange in it, and
  after ending it.
\<close>

definition demo_created :: world where
  "demo_created = step (Create ''c1'' 10 ''Demo'') empty_world"

definition demo_active :: world where
  "demo_active =
     step (Send (\<lambda>req. Inr ''Hi there'') ''m1'' 11 ''m2'' 12 ''c1'' ''Hello'') demo_created"

definition demo_ended :: world where
  "demo_ended = step (End (\<lambda>req. Inr ''A greeting.'') 20 ''c1'') demo_active"

text \<open>A store whose two messages were inserted against the order of their timestamps.\<close>

definition demo_unordered :: world where
  "demo_unordered =
     \<lparr>conversations =
        [\<lparr>conv_id = ''c1'', title = ''Demo'', status = ''ended'', summary = Some ''S'',
          start_time = 10, end_time = Some 20, share_token = Some ''tok''\<rparr>],
      messages =
        [\<lparr>msg_id = ''m2'', conversation_id = ''c1'', role = ''assistant'', content = ''B'',
          timestamp = 12, reactions = [], bookmarked = False\<rparr>,
         \<lparr>msg_id = ''m1'', conversation_id = ''c1'', role = ''user'', content = ''A'',
          timestamp = 11, reactions = [], bookmarked = False\<rparr>],
      llm_calls = []\<rparr>"

text \<open>A PDF build that writes its file.\<close>

definition build_ok :: "string \<Rightarrow> flowable list \<Rightarrow> string option" where
  "build_ok path story = None"

text \<open>A response of the gateway with an indented comment line and padded lines.\<close>

definition demo_response :: string where
  "demo_response =
     '' # note'' @ [nl] @ '' Q1 '' @ [nl, nl] @ ''Q2'' @ [nl] @ ''Q3'' @ [nl] @ ''Q4''"

text \<open>
  A store whose conversation has 1001 messages; the last one inserted has the earliest
  timestamp.
\<close>

definition demo_full :: world where
  "demo_full =
     \<lparr>conversations =
        [\<lparr>conv_id = ''c1'', title = ''Demo'', status = ''ended'', summary = Some ''S'',
          start_time = 10, end_time = Some 20, share_token = Some ''tok''\<rparr>],
      messages =
        replicate 1000
          \<lparr>msg_id = ''m1'', conversation_id = ''c1'', role = ''user'', content = ''A'',
            timestamp = 11, reactions = [], bookmarked = False\<rparr>
        @ [\<lparr>msg_id = ''m2'', conversation_id = ''c1'', role = ''assistant'', content = ''B'',
            timestamp = 5, reactions = [], bookmarked = False\<rparr>],
      llm_calls = []\<rparr>"

section \<open>The example stores, evaluated\<close>

lemma demo_created_eq:
  "demo_created =
     \<lparr>conversations =
        [\<lparr>conv_id = ''c1'', title = ''Demo'', status = ''active'', summary = None,
          start_time = 10, end_time = None, share_token = None\<rparr>],
      messages = [], llm_calls = []\<rparr>"
  by (simp add: demo_created_def create_conversation_def empty_world_def Let_def)

lemma demo_active_conversations: "conversations demo_active = conversations demo_created"
  by (simp add: demo_active_def demo_created_eq send_message_def find_messages_def
      to_list_def call_llm_def chat_send_def Let_def)

lemma demo_active_messages:
  "messages demo_active =
     [\<lparr>msg_id = ''m1'', conversation_id = ''c1'', role = ''user'', content = ''Hello'',
       timestamp = 11, reactions = [], bookmarked = False\<rparr>,
      \<lparr>msg_id = ''m2'', conversation_id = ''c1'', role = ''assistant'', content = ''Hi there'',
       timestamp = 12, reactions = [], bookmarked = False\<rparr>]"
  by (simp add: demo_active_def demo_created_eq send_message_def find_messages_def
      to_list_def call_llm_def chat_send_def Let_def)

lemma demo_ended_conversations:
  "conversations demo_ended =
     [\<lparr>conv_id = ''c1'', title = ''Demo'', status = ''ended'', summary = Some ''A greeting.'',
       start_time = 10, end_time = Some 20, share_token = None\<rparr>]"
  by (simp add: demo_ended_def demo_active_conversations demo_created_eq end_conversation_def
      chat_send_def set_ended_def summary_text_def Let_def)

lemma demo_ended_messages: "messages demo_ended = messages demo_active"
  by (simp add: demo_ended_def demo_active_conversations demo_created_eq end_conversation_def
      chat_send_def set_ended_def summary_text_def Let_def)

lemma reachable_demo_created: "reachable demo_created"
  unfolding demo_created_def by (intro reachable.intros)

lemma reachable_demo_active: "reachable demo_active"
  unfolding demo_active_def using reachable_demo_created by (rule reachable.step)

lemma reachable_demo_ended: "reachable demo_ended"
  unfolding demo_ended_def using reachable_demo_active by (rule reachable.step)

section \<open>Facts about the store primitives\<close>

lemma update_one_all:
  "(\<forall>x\<in>set xs. Q x) \<Longrightarrow> (\<forall>x\<in>set xs. p x \<longrightarrow> Q (f x))
     \<Longrightarrow> \<forall>x\<in>set (update_one p f xs). Q x"
  by (induction xs) auto

lemma map_update_one: "(\<And>x. g (f x) = g x) \<Longrightarrow> map g (update_one p f xs) = map g xs"
  by (induction xs) auto

lemma find_update_one:
  "find p xs = Some x \<Longrightarrow> p (f x) \<Longrightarrow> find p (update_one p f xs) = Some (f x)"
  by (induction xs) (auto split: if_splits)

lemma update_one_absent: "find p xs = None \<Longrightarrow> update_one p f xs = xs"
  by (induction xs) (auto split: if_splits)

lemma update_one_same: "find p xs = Some x \<Longrightarrow> f x = x \<Longrightarrow> update_one p f xs = xs"
  by (induction xs) (auto split: if_splits)

lemma update_one_twice:
  "find p xs = Some x \<Longrightarrow> p (f x) \<Longrightarrow>
     update_one p g (update_one p f xs) = update_one p (\<lambda>y. g (f y)) xs"
  by (induction xs) (auto split: if_splits)

section \<open>What each endpoint returns and writes\<close>

lemma call_llm_eq:
  "call_llm llm ms cid w =
     (case llm (reply_request ms cid) of
        Inr response \<Rightarrow> response
      | Inl e \<Rightarrow> ''Error generating response: '' @ e,
      w\<lparr>llm_calls := llm_calls w @ [reply_request ms cid]\<rparr>)"
  by (simp add: call_llm_def chat_send_def split: sum.splits)

lemma generate_suggestions_eq:
  "h \<noteq> [] \<Longrightarrow> generate_suggestions llm u h w =
     (case llm (suggestions_request u h) of
        Inr response \<Rightarrow> parse_suggestions response
      | Inl e \<Rightarrow> [],
      w\<lparr>llm_calls := llm_calls w @ [suggestions_request u h]\<rparr>)"
  by (simp add: generate_suggestions_def chat_send_def split: sum.splits)

lemma generate_suggestions_world:
  "messages (snd (generate_suggestions llm u h w)) = messages w"
  "conversations (snd (generate_suggestions llm u h w)) = conversations w"
  by (simp_all add: generate_suggestions_def chat_send_def split: sum.splits)

lemma send_message_active:
  assumes "find (\<lambda>c. conv_id c = cid) (conversations w) = Some conv"
    and "status conv = ''active''"
  shows "send_message llm u1 t1 u2 t2 cid x w =
     (let user_msg = \<lparr>msg_id = u1, conversation_id = cid, role = ''user'', content = x,
                      timestamp = t1, reactions = [], bookmarked = False\<rparr>;
          req = reply_request
                  (map (\<lambda>m. (role m, content m))
                     (sort_key timestamp
                        (find_messages cid (w\<lparr>messages := messages w @ [user_msg]\<rparr>)))) cid;
          ai_msg = \<lparr>msg_id = u2, conversation_id = cid, role = ''assistant'',
                    content = (case llm req of
                                 Inr response \<Rightarrow> response
                               | Inl e \<Rightarrow> ''Error generating response: '' @ e),
                    timestamp = t2, reactions = [], bookmarked = False\<rparr>
      in (Inr ai_msg,
          w\<lparr>messages := messages w @ [user_msg, ai_msg],
            llm_calls := llm_calls w @ [req]\<rparr>))"
  using assms by (simp add: send_message_def call_llm_eq Let_def)

lemma end_conversation_active:
  assumes "find (\<lambda>c. conv_id c = cid) (conversations w) = Some conv"
    and "status conv \<noteq> ''ended''"
  shows "end_conversation llm now cid w =
     (let req = summary_request cid (find_messages cid w);
          s = summary_text (llm req)
      in (Inr (set_ended s now conv),
          w\<lparr>conversations := update_one (\<lambda>c. conv_id c = cid) (set_ended s now) (conversations w),
            llm_calls := llm_calls w @ [req]\<rparr>))"
  using assms by (simp add: end_conversation_def chat_send_def Let_def)

lemma conversations_create:
  "conversations (snd (create_conversation u t ti w)) =
     conversations w @ [\<lparr>conv_id = u, title = ti, status = ''active'', summary = None,
                          start_time = t, end_time = None, share_token = None\<rparr>]"
  by (simp add: create_conversation_def Let_def)

lemma conversations_send_message:
  "conversations (snd (send_message llm u1 t1 u2 t2 cid x w)) = conversations w"
proof (cases "find (\<lambda>c. conv_id c = cid) (conversations w)")
  case None
  then show ?thesis by (simp add: send_message_def)
next
  case (Some conv)
  show ?thesis
  proof (cases "status conv = ''active''")
    case False
    with Some show ?thesis by (simp add: send_message_def)
  next
    case True
    with Some show ?thesis by (simp add: send_message_active Let_def)
  qed
qed

lemma conversations_end:
  "conversations (snd (end_conversation llm now cid w)) = conversations w
   \<or> (\<exists>s. conversations (snd (end_conversation llm now cid w)) =
          update_one (\<lambda>c. conv_id c = cid) (set_ended s now) (conversations w))"
proof (cases "find (\<lambda>c. conv_id c = cid) (conversations w)")
  case None
  then show ?thesis by (simp add: end_conversation_def)
next
  case (Some conv)
  show ?thesis
  proof (cases "status conv = ''ended''")
    case True
    with Some show ?thesis by (simp add: end_conversation_def)
  next
    case False
    with Some have "conversations (snd (end_conversation llm now cid w)) =
        update_one (\<lambda>c. conv_id c = cid)
          (set_ended (summary_text (llm (summary_request cid (find_messages cid w)))) now)
          (conversations w)"
      by (simp add: end_conversation_active Let_def)
    then show ?thesis by blast
  qed
qed

lemma messages_end_conversation:
  "messages (snd (end_conversation llm now cid w)) = messages w"
  by (simp add: end_conversation_def chat_send_def Let_def split: option.splits)

lemma conversations_react:
  "conversations (snd (react_to_message mid r w)) = conversations w"
  by (simp add: react_to_message_def Let_def split: option.splits)

lemma conversations_bookmark:
  "conversations (snd (bookmark_message mid w)) = conversations w"
  by (simp add: bookmark_message_def Let_def split: option.splits)

lemma conversations_get:
  "conversations (snd (get_conversation llm u cid w)) = conversations w"
  by (simp add: get_conversation_def Let_def split_beta generate_suggestions_world
      split: option.splits)

lemma conversations_query:
  "conversations (snd (query_conversations llm u q w)) = conversations w"
  by (simp add: query_conversations_def chat_send_def Let_def)

lemma conversations_share:
  "conversations (snd (share_conversation u cid w)) =
     update_one (\<lambda>c. conv_id c = cid) (\<lambda>c. c\<lparr>share_token := Some u\<rparr>) (conversations w)"
  by (simp add: share_conversation_def update_one_absent split: option.splits)

section \<open>Appending to a missing or an ended conversation\<close>

text \<open>
  C2. \<^verbatim>\<open>send_message\<close> answers 404 (the specification's NotFound) when no conversation
  carries the identifier, and 400 (InvalidState) when the conversation found is not
  \<^verbatim>\<open>active\<close>; in both cases the store and the gateway log are returned as they were, so no
  message has been persisted.
\<close>

theorem send_message_rejects:
  "(find (\<lambda>c. conv_id c = cid) (conversations w) = None \<longrightarrow>
      send_message llm u1 t1 u2 t2 cid x w
        = (Inl (HTTPException 404 ''Conversation not found''), w))
   \<and> (\<forall>conv. find (\<lambda>c. conv_id c = cid) (conversations w) = Some conv
              \<and> status conv \<noteq> ''active'' \<longrightarrow>
      send_message llm u1 t1 u2 t2 cid x w
        = (Inl (HTTPException 400 ''Conversation has ended''), w))"
  by (simp add: send_message_def)

theorem send_message_rejects_witness:
  "send_message (\<lambda>req. Inr ''Hi'') ''m3'' 30 ''m4'' 31 ''c1'' ''More'' empty_world
     = (Inl (HTTPException 404 ''Conversation not found''), empty_world)
   \<and> send_message (\<lambda>req. Inr ''Hi'') ''m3'' 30 ''m4'' 31 ''c1'' ''More'' demo_ended
     = (Inl (HTTPException 400 ''Conversation has ended''), demo_ended)"
  using send_message_rejects
          [of "''c1''" empty_world "\<lambda>req. Inr ''Hi''" "''m3''" 30 "''m4''" 31 "''More''"]
        send_message_rejects
          [of "''c1''" demo_ended "\<lambda>req. Inr ''Hi''" "''m3''" 30 "''m4''" 31 "''More''"]
  by (simp add: empty_world_def demo_ended_conversations)

section \<open>The lifecycle invariant\<close>

lemma step_conv_ok:
  assumes "\<forall>c\<in>set (conversations w). conv_ok c"
  shows "\<forall>c\<in>set (conversations (step a w)). conv_ok c"
proof (cases a)
  case (Create u t ti)
  with assms show ?thesis by (simp add: conversations_create conv_ok_def)
next
  case (Send llm u1 t1 u2 t2 cid x)
  with assms show ?thesis by (simp add: conversations_send_message)
next
  case (End llm now cid)
  from conversations_end [of llm now cid w] show ?thesis
  proof
    assume "conversations (snd (end_conversation llm now cid w)) = conversations w"
    with assms End show ?thesis by simp
  next
    assume "\<exists>s. conversations (snd (end_conversation llm now cid w)) =
          update_one (\<lambda>c. conv_id c = cid) (set_ended s now) (conversations w)"
    then obtain s where "conversations (snd (end_conversation llm now cid w)) =
          update_one (\<lambda>c. conv_id c = cid) (set_ended s now) (conversations w)" ..
    moreover have "\<forall>c\<in>set (update_one (\<lambda>c. conv_id c = cid) (set_ended s now)
            (conversations w)). conv_ok c"
      using assms by (intro update_one_all) (simp_all add: conv_ok_def set_ended_def)
    ultimately show ?thesis using End by simp
  qed
next
  case (React mid r)
  with assms show ?thesis by (simp add: conversations_react)
next
  case (Bookmark mid)
  with assms show ?thesis by (simp add: conversations_bookmark)
next
  case (Share u cid)
  have "\<forall>c\<in>set (update_one (\<lambda>c. conv_id c = cid) (\<lambda>c. c\<lparr>share_token := Some u\<rparr>)
            (conversations w)). conv_ok c"
    using assms by (intro update_one_all) (simp_all add: conv_ok_def)
  with Share show ?thesis by (simp add: conversations_share)
next
  case (Get llm u cid)
  with assms show ?thesis by (simp add: conversations_get)
next
  case (Query llm u q)
  with assms show ?thesis by (simp add: conversations_query)
qed

lemma reachable_conv_ok: "reachable w \<Longrightarrow> \<forall>c\<in>set (conversations w). conv_ok c"
proof (induction rule: reachable.induct)
  case init
  show ?case by (simp add: empty_world_def)
next
  case (step w c)
  from step.IH show ?case by (rule step_conv_ok)
qed

lemma step_keeps_lifecycle:
  assumes "\<forall>llm now cid. a \<noteq> End llm now cid"
  shows "map lifecycle (take (length (conversations w)) (conversations (step a w)))
           = map lifecycle (conversations w)"
proof (cases a)
  case (Create u t ti)
  then show ?thesis by (simp add: conversations_create)
next
  case (Send llm u1 t1 u2 t2 cid x)
  then show ?thesis by (simp add: conversations_send_message)
next
  case (End llm now cid)
  with assms show ?thesis by simp
next
  case (React mid r)
  then show ?thesis by (simp add: conversations_react)
next
  case (Bookmark mid)
  then show ?thesis by (simp add: conversations_bookmark)
next
  case (Share u cid)
  have "map lifecycle (update_one (\<lambda>c. conv_id c = cid) (\<lambda>c. c\<lparr>share_token := Some u\<rparr>)
           (conversations w)) = map lifecycle (conversations w)"
    by (rule map_update_one) (simp add: lifecycle_def)
  moreover have "length (update_one (\<lambda>c. conv_id c = cid) (\<lambda>c. c\<lparr>share_token := Some u\<rparr>)
           (conversations w)) = length (conversations w)"
    using arg_cong [OF calculation, of length] by simp
  ultimately show ?thesis using Share by (simp add: conversations_share)
next
  case (Get llm u cid)
  then show ?thesis by (simp add: conversations_get)
next
  case (Query llm u q)
  then show ?thesis by (simp add: conversations_query)
qed

lemma find_SomeD: "find p xs = Some x \<Longrightarrow> p x \<and> x \<in> set xs"
  by (induction xs) (auto split: if_splits)

lemma end_conversation_sets_all:
  assumes "find (\<lambda>c. conv_id c = cid) (conversations w) = Some conv"
    and "status conv \<noteq> ''ended''"
  shows "\<exists>c' w' s. end_conversation llm now cid w = (Inr c', w')
            \<and> lifecycle c' = (''ended'', Some s, Some now)
            \<and> find (\<lambda>c. conv_id c = cid) (conversations w') = Some c'"
proof -
  let ?s = "summary_text (llm (summary_request cid (find_messages cid w)))"
  from find_SomeD [OF assms(1)] have cid: "conv_id conv = cid" by simp
  have "find (\<lambda>c. conv_id c = cid)
          (update_one (\<lambda>c. conv_id c = cid) (set_ended ?s now) (conversations w))
        = Some (set_ended ?s now conv)"
    using assms(1) cid by (intro find_update_one) (simp_all add: set_ended_def)
  then show ?thesis
    using assms by (simp add: end_conversation_active Let_def lifecycle_def set_ended_def)
qed

text \<open>
  C1. In every store reached from the empty one by the endpoints, a conversation has
  status \<^verbatim>\<open>ended\<close> exactly when both its end timestamp and its summary are set.
  \<^verbatim>\<open>create_conversation\<close> appends a conversation that is \<^verbatim>\<open>active\<close> with neither;
  no call other than \<^verbatim>\<open>end_conversation\<close> changes status, summary or end timestamp of a
  stored conversation; and a successful \<^verbatim>\<open>end_conversation\<close> writes the three together.
\<close>

theorem lifecycle_invariant:
  "(reachable w \<longrightarrow>
      (\<forall>c\<in>set (conversations w).
         (status c = ''ended'') = (end_time c \<noteq> None \<and> summary c \<noteq> None)))
   \<and> (\<exists>c. create_conversation u t ti w = (Inr c, w\<lparr>conversations := conversations w @ [c]\<rparr>)
           \<and> lifecycle c = (''active'', None, None))
   \<and> (\<forall>a. (\<forall>llm now cid. a \<noteq> End llm now cid) \<longrightarrow>
           map lifecycle (take (length (conversations w)) (conversations (step a w)))
             = map lifecycle (conversations w))
   \<and> (\<forall>conv. find (\<lambda>c. conv_id c = cid) (conversations w) = Some conv
              \<and> status conv \<noteq> ''ended'' \<longrightarrow>
         (\<exists>c' w' s. end_conversation llm now cid w = (Inr c', w')
            \<and> lifecycle c' = (''ended'', Some s, Some now)
            \<and> find (\<lambda>c. conv_id c = cid) (conversations w') = Some c'))"
proof (intro conjI impI allI)
  assume "reachable w"
  then have "\<forall>c\<in>set (conversations w). conv_ok c" by (rule reachable_conv_ok)
  then show "\<forall>c\<in>set (conversations w).
         (status c = ''ended'') = (end_time c \<noteq> None \<and> summary c \<noteq> None)"
    by (auto simp: conv_ok_def)
next
  show "\<exists>c. create_conversation u t ti w = (Inr c, w\<lparr>conversations := conversations w @ [c]\<rparr>)
           \<and> lifecycle c = (''active'', None, None)"
    by (simp add: create_conversation_def Let_def lifecycle_def)
next
  fix a :: call
  assume "\<forall>llm now cid. a \<noteq> End llm now cid"
  then show "map lifecycle (take (length (conversations w)) (conversations (step a w)))
             = map lifecycle (conversations w)"
    by (rule step_keeps_lifecycle)
next
  fix conv
  assume "find (\<lambda>c. conv_id c = cid) (conversations w) = Some conv \<and> status conv \<noteq> ''ended''"
  then show "\<exists>c' w' s. end_conversation llm now cid w = (Inr c', w')
            \<and> lifecycle c' = (''ended'', Some s, Some now)
            \<and> find (\<lambda>c. conv_id c = cid) (conversations w') = Some c'"
    using end_conversation_sets_all by blast
qed

theorem lifecycle_invariant_witness:
  "map lifecycle (conversations demo_ended) = [(''ended'', Some ''A greeting.'', Some 20)]
   \<and> map lifecycle (conversations demo_active) = [(''active'', None, None)]
   \<and> map lifecycle (conversations (step (Share ''tok'' ''c1'') demo_ended))
        = [(''ended'', Some ''A greeting.'', Some 20)]"
  using lifecycle_invariant [of demo_ended "''c2''" 30 "''Next''" "''c1''" "\<lambda>req. Inr ''S''" 40]
        lifecycle_invariant [of demo_active "''c2''" 30 "''Next''" "''c1''" "\<lambda>req. Inr ''S''" 40]
        reachable_demo_ended reachable_demo_active
  by (simp add: demo_ended_conversations demo_active_conversations demo_created_eq
      lifecycle_def share_conversation_def)

section \<open>Degraded replies and ending twice\<close>

text \<open>
  C3. When the gateway raises on the request that \<^verbatim>\<open>send_message\<close> sends for the reply
  (whatever it does on other requests), the call on an active conversation still
  succeeds: it returns an assistant message whose content is
  \<^verbatim>\<open>Error generating response: \<close> followed by the text of the exception, and the store
  holds the user message followed by that assistant message.
\<close>

theorem send_message_llm_failure:
  assumes "find (\<lambda>c. conv_id c = cid) (conversations w) = Some conv"
    and "status conv = ''active''"
    and "llm (reply_request
                (map (\<lambda>m. (role m, content m))
                   (sort_key timestamp
                      (find_messages cid
                         (w\<lparr>messages := messages w @
                              [\<lparr>msg_id = u1, conversation_id = cid, role = ''user'',
                                content = x, timestamp = t1, reactions = [],
                                bookmarked = False\<rparr>]\<rparr>)))) cid) = Inl e"
  shows "send_message llm u1 t1 u2 t2 cid x w
           = (Inr \<lparr>msg_id = u2, conversation_id = cid, role = ''assistant'',
                    content = ''Error generating response: '' @ e,
                    timestamp = t2, reactions = [], bookmarked = False\<rparr>,
              w\<lparr>messages := messages w @
                   [\<lparr>msg_id = u1, conversation_id = cid, role = ''user'', content = x,
                     timestamp = t1, reactions = [], bookmarked = False\<rparr>,
                    \<lparr>msg_id = u2, conversation_id = cid, role = ''assistant'',
                     content = ''Error generating response: '' @ e,
                     timestamp = t2, reactions = [], bookmarked = False\<rparr>],
                llm_calls := llm_calls w @
                   [reply_request
                      (map (\<lambda>m. (role m, content m))
                         (sort_key timestamp
                            (find_messages cid
                               (w\<lparr>messages := messages w @
                                    [\<lparr>msg_id = u1, conversation_id = cid, role = ''user'',
                                      content = x, timestamp = t1, reactions = [],
                                      bookmarked = False\<rparr>]\<rparr>)))) cid]\<rparr>)"
  using assms by (simp add: send_message_active Let_def)

theorem send_message_llm_failure_witness:
  "send_message (\<lambda>req. if prompt req = ''More'' then Inl ''timeout'' else Inr ''Fine'')
       ''m3'' 30 ''m4'' 31 ''c1'' ''More'' demo_active
     = (Inr \<lparr>msg_id = ''m4'', conversation_id = ''c1'', role = ''assistant'',
              content = ''Error generating response: timeout'',
              timestamp = 31, reactions = [], bookmarked = False\<rparr>,
        demo_active\<lparr>messages := messages demo_active @
            [\<lparr>msg_id = ''m3'', conversation_id = ''c1'', role = ''user'', content = ''More'',
              timestamp = 30, reactions = [], bookmarked = False\<rparr>,
             \<lparr>msg_id = ''m4'', conversation_id = ''c1'', role = ''assistant'',
              content = ''Error generating response: timeout'',
              timestamp = 31, reactions = [], bookmarked = False\<rparr>],
          llm_calls := llm_calls demo_active @
            [\<lparr>session_id = ''c1'',
              system_message = ''You are a helpful, friendly AI assistant. Provide clear and concise responses.'',
              prompt = ''More''\<rparr>]\<rparr>)"
  using send_message_llm_failure
          [of "''c1''" demo_active
              "\<lparr>conv_id = ''c1'', title = ''Demo'', status = ''active'', summary = None,
                start_time = 10, end_time = None, share_token = None\<rparr>"
              "\<lambda>req. if prompt req = ''More'' then Inl ''timeout'' else Inr ''Fine''"
              "''m3''" "''More''" 30 "''timeout''" "''m4''" 31]
  by (simp add: demo_active_conversations demo_created_eq demo_active_messages
      find_messages_def to_list_def reply_request_def Let_def)

lemma end_conversation_ended:
  assumes "find (\<lambda>c. conv_id c = cid) (conversations w) = Some conv"
    and "status conv = ''ended''"
  shows "end_conversation llm now cid w
           = (Inl (HTTPException 400 ''Conversation already ended''), w)"
  using assms by (simp add: end_conversation_def)

lemma end_conversation_success:
  assumes ok: "end_conversation llm now cid w = (Inr c, w')"
  shows "find (\<lambda>c. conv_id c = cid) (conversations w') = Some c
       \<and> status c = ''ended'' \<and> end_time c = Some now \<and> summary c \<noteq> None"
proof -
  from ok obtain conv where conv: "find (\<lambda>c. conv_id c = cid) (conversations w) = Some conv"
    and active: "status conv \<noteq> ''ended''"
    by (auto simp: end_conversation_def split: option.splits if_splits)
  let ?s = "summary_text (llm (summary_request cid (find_messages cid w)))"
  from ok conv active have c: "c = set_ended ?s now conv"
    and w': "w' = w\<lparr>conversations :=
                      update_one (\<lambda>c. conv_id c = cid) (set_ended ?s now) (conversations w),
                    llm_calls := llm_calls w @ [summary_request cid (find_messages cid w)]\<rparr>"
    by (simp_all add: end_conversation_active Let_def)
  from find_SomeD [OF conv] have cid: "conv_id conv = cid" by simp
  have "find (\<lambda>c. conv_id c = cid) (conversations w') = Some c"
    unfolding w' c using conv cid
    by (simp add: find_update_one set_ended_def)
  moreover have "status c = ''ended'' \<and> end_time c = Some now \<and> summary c \<noteq> None"
    by (simp add: c set_ended_def)
  ultimately show ?thesis by simp
qed

text \<open>
  C4. \<^verbatim>\<open>end_conversation\<close> on a conversation that is already \<^verbatim>\<open>ended\<close> answers 400
  (the specification's InvalidState) and returns the store as it was. In particular,
  after a successful call, which leaves the conversation stored with the summary and the
  end timestamp it returned, a second call fails in this way.
\<close>

theorem end_conversation_twice:
  "(\<forall>conv. find (\<lambda>c. conv_id c = cid) (conversations w) = Some conv
            \<and> status conv = ''ended'' \<longrightarrow>
       end_conversation llm now cid w
         = (Inl (HTTPException 400 ''Conversation already ended''), w))
   \<and> (\<forall>c w'. end_conversation llm now cid w = (Inr c, w') \<longrightarrow>
         find (\<lambda>c. conv_id c = cid) (conversations w') = Some c
       \<and> status c = ''ended'' \<and> end_time c = Some now \<and> summary c \<noteq> None
       \<and> end_conversation llm2 now2 cid w'
           = (Inl (HTTPException 400 ''Conversation already ended''), w'))"
proof -
  have first: "end_conversation llm now cid w
         = (Inl (HTTPException 400 ''Conversation already ended''), w)"
    if "find (\<lambda>c. conv_id c = cid) (conversations w) = Some conv \<and> status conv = ''ended''"
    for conv
    using that by (simp add: end_conversation_ended)
  have second: "find (\<lambda>c. conv_id c = cid) (conversations w') = Some c
       \<and> status c = ''ended'' \<and> end_time c = Some now \<and> summary c \<noteq> None
       \<and> end_conversation llm2 now2 cid w'
           = (Inl (HTTPException 400 ''Conversation already ended''), w')"
    if ok: "end_conversation llm now cid w = (Inr c, w')" for c w'
  proof -
    note s = end_conversation_success [OF ok]
    from s have "end_conversation llm2 now2 cid w'
           = (Inl (HTTPException 400 ''Conversation already ended''), w')"
      by (simp add: end_conversation_ended)
    with s show ?thesis by simp
  qed
  from first second show ?thesis by blast
qed

theorem end_conversation_twice_witness:
  "end_conversation (\<lambda>req. Inr ''Another summary'') 99 ''c1'' demo_ended
     = (Inl (HTTPException 400 ''Conversation already ended''), demo_ended)
   \<and> conversations demo_ended =
       [\<lparr>conv_id = ''c1'', title = ''Demo'', status = ''ended'', summary = Some ''A greeting.'',
         start_time = 10, end_time = Some 20, share_token = None\<rparr>]"
  using end_conversation_twice
          [of "''c1''" demo_active "\<lambda>req. Inr ''A greeting.''" 20
              "\<lambda>req. Inr ''Another summary''" 99]
  by (simp add: demo_ended_def demo_active_conversations demo_created_eq
      end_conversation_def chat_send_def set_ended_def summary_text_def Let_def)

section \<open>Reactions\<close>

lemma toggle_distinct: "distinct rs \<Longrightarrow> distinct (toggle r rs)"
  by (simp add: toggle_def)

lemma toggle_twice_set: "distinct rs \<Longrightarrow> set (toggle r (toggle r rs)) = set rs"
  by (auto simp: toggle_def)

lemma toggle_twice_absent: "r \<notin> set rs \<Longrightarrow> toggle r (toggle r rs) = rs"
  by (simp add: toggle_def remove1_append)

lemma toggle_twice_present:
  "distinct rs \<Longrightarrow> r \<in> set rs \<Longrightarrow> toggle r (toggle r rs) = remove1 r rs @ [r]"
  by (simp add: toggle_def)

lemma messages_send_message:
  "messages (snd (send_message llm u1 t1 u2 t2 cid x w)) = messages w
   \<or> (\<exists>a b. reactions a = [] \<and> reactions b = []
          \<and> messages (snd (send_message llm u1 t1 u2 t2 cid x w)) = messages w @ [a, b])"
proof (cases "find (\<lambda>c. conv_id c = cid) (conversations w)")
  case None
  then show ?thesis by (simp add: send_message_def)
next
  case (Some conv)
  show ?thesis
  proof (cases "status conv = ''active''")
    case False
    with Some show ?thesis by (simp add: send_message_def)
  next
    case True
    with Some show ?thesis by (simp add: send_message_active Let_def)
  qed
qed

lemma react_to_message_found:
  assumes "find (\<lambda>m. msg_id m = mid) (messages w) = Some msg"
  shows "react_to_message mid r w =
     (Inr (True, toggle r (reactions msg)),
      w\<lparr>messages := update_one (\<lambda>m. msg_id m = mid)
                       (\<lambda>m. m\<lparr>reactions := toggle r (reactions msg)\<rparr>) (messages w)\<rparr>)"
  using assms by (simp add: react_to_message_def Let_def)

lemma step_distinct_reactions:
  assumes "\<forall>m\<in>set (messages w). distinct (reactions m)"
  shows "\<forall>m\<in>set (messages (step a w)). distinct (reactions m)"
proof (cases a)
  case (Create u t ti)
  with assms show ?thesis by (simp add: create_conversation_def Let_def)
next
  case (Send llm u1 t1 u2 t2 cid x)
  from messages_send_message [of llm u1 t1 u2 t2 cid x w] assms Send
  show ?thesis by auto
next
  case (End llm now cid)
  with assms show ?thesis by (simp add: messages_end_conversation)
next
  case (React mid r)
  show ?thesis
  proof (cases "find (\<lambda>m. msg_id m = mid) (messages w)")
    case None
    with assms React show ?thesis by (simp add: react_to_message_def)
  next
    case (Some msg)
    from find_SomeD [OF Some] assms have "distinct (toggle r (reactions msg))"
      by (simp add: toggle_distinct)
    with assms have "\<forall>m\<in>set (update_one (\<lambda>m. msg_id m = mid)
                       (\<lambda>m. m\<lparr>reactions := toggle r (reactions msg)\<rparr>) (messages w)).
                     distinct (reactions m)"
      by (intro update_one_all) simp_all
    with React Some show ?thesis by (simp add: react_to_message_found)
  qed
next
  case (Bookmark mid)
  show ?thesis
  proof (cases "find (\<lambda>m. msg_id m = mid) (messages w)")
    case None
    with assms Bookmark show ?thesis by (simp add: bookmark_message_def)
  next
    case (Some msg)
    from assms have "\<forall>m\<in>set (update_one (\<lambda>m. msg_id m = mid)
                       (\<lambda>m. m\<lparr>bookmarked := \<not> bookmarked msg\<rparr>) (messages w)).
                     distinct (reactions m)"
      by (intro update_one_all) simp_all
    with Bookmark Some show ?thesis by (simp add: bookmark_message_def Let_def)
  qed
next
  case (Share u cid)
  with assms show ?thesis by (simp add: share_conversation_def split: option.splits)
next
  case (Get llm u cid)
  with assms show ?thesis
    by (simp add: get_conversation_def Let_def split_beta generate_suggestions_world
        split: option.splits)
next
  case (Query llm u q)
  with assms show ?thesis by (simp add: query_conversations_def chat_send_def Let_def)
qed

lemma reachable_distinct_reactions:
  "reachable w \<Longrightarrow> \<forall>m\<in>set (messages w). distinct (reactions m)"
proof (induction rule: reachable.induct)
  case init
  show ?case by (simp add: empty_world_def)
next
  case (step w c)
  from step.IH show ?case by (rule step_distinct_reactions)
qed

text \<open>
  C5. For a message of a reachable store, two calls of \<^verbatim>\<open>react_to_message\<close> with the
  same symbol both succeed, and afterwards the message carries the same set of reactions
  as before (without duplicates) and is otherwise unchanged; when the symbol was absent,
  the whole store is as before. When the symbol was present, it has moved to the end of
  the stored list.
\<close>

theorem react_twice:
  assumes "reachable w"
    and "find (\<lambda>m. msg_id m = mid) (messages w) = Some msg"
  shows "\<exists>rs1 w1 rs2 w2.
           react_to_message mid r w = (Inr (True, rs1), w1)
         \<and> react_to_message mid r w1 = (Inr (True, rs2), w2)
         \<and> find (\<lambda>m. msg_id m = mid) (messages w2) = Some (msg\<lparr>reactions := rs2\<rparr>)
         \<and> set rs2 = set (reactions msg) \<and> distinct rs2
         \<and> (r \<notin> set (reactions msg) \<longrightarrow> w2 = w)
         \<and> (r \<in> set (reactions msg) \<longrightarrow> rs2 = remove1 r (reactions msg) @ [r])"
proof -
  let ?p = "\<lambda>m. msg_id m = mid"
  let ?rs1 = "toggle r (reactions msg)"
  let ?rs2 = "toggle r ?rs1"
  let ?w1 = "w\<lparr>messages := update_one ?p (\<lambda>m. m\<lparr>reactions := ?rs1\<rparr>) (messages w)\<rparr>"
  let ?w2 = "w\<lparr>messages := update_one ?p (\<lambda>m. m\<lparr>reactions := ?rs2\<rparr>) (messages w)\<rparr>"
  from find_SomeD [OF assms(2)] have mid: "msg_id msg = mid" and mem: "msg \<in> set (messages w)"
    by simp_all
  from assms(1) mem have d: "distinct (reactions msg)"
    using reachable_distinct_reactions by blast
  have first: "react_to_message mid r w = (Inr (True, ?rs1), ?w1)"
    using assms(2) by (rule react_to_message_found)
  have found1: "find ?p (messages ?w1) = Some (msg\<lparr>reactions := ?rs1\<rparr>)"
    using assms(2) mid by (simp add: find_update_one)
  have "update_one ?p (\<lambda>m. m\<lparr>reactions := ?rs2\<rparr>)
          (update_one ?p (\<lambda>m. m\<lparr>reactions := ?rs1\<rparr>) (messages w))
        = update_one ?p (\<lambda>m. m\<lparr>reactions := ?rs1\<rparr>\<lparr>reactions := ?rs2\<rparr>) (messages w)"
    using assms(2) mid by (intro update_one_twice) simp_all
  then have second: "react_to_message mid r ?w1 = (Inr (True, ?rs2), ?w2)"
    using react_to_message_found [OF found1, of r] by simp
  have found2: "find ?p (messages ?w2) = Some (msg\<lparr>reactions := ?rs2\<rparr>)"
    using assms(2) mid by (simp add: find_update_one)
  have same: "set ?rs2 = set (reactions msg)" and dist: "distinct ?rs2"
    using d by (simp_all add: toggle_twice_set toggle_distinct)
  have restored: "?w2 = w" if "r \<notin> set (reactions msg)"
  proof -
    from that have "?rs2 = reactions msg" by (rule toggle_twice_absent)
    moreover have "update_one ?p (\<lambda>m. m\<lparr>reactions := reactions msg\<rparr>) (messages w) = messages w"
      using assms(2) by (rule update_one_same) simp
    ultimately show ?thesis by simp
  qed
  have moved: "?rs2 = remove1 r (reactions msg) @ [r]" if "r \<in> set (reactions msg)"
    using d that by (rule toggle_twice_present)
  from first second found2 same dist restored moved show ?thesis by blast
qed

theorem react_twice_witness:
  "\<exists>w1 w2.
       react_to_message ''m1'' ''+1'' demo_active = (Inr (True, [''+1'']), w1)
     \<and> react_to_message ''m1'' ''+1'' w1 = (Inr (True, []), w2)
     \<and> w2 = demo_active"
  using react_twice [OF reachable_demo_active, of "''m1''"
          "\<lparr>msg_id = ''m1'', conversation_id = ''c1'', role = ''user'', content = ''Hello'',
            timestamp = 11, reactions = [], bookmarked = False\<rparr>" "''+1''"]
  by (simp add: demo_active_messages react_to_message_def toggle_def Let_def)

section \<open>Order of the returned messages\<close>

lemma get_conversation_found:
  assumes "find (\<lambda>c. conv_id c = cid) (conversations w) = Some conv"
  shows "\<exists>sugg w'. get_conversation llm uuid cid w
           = (Inr (conv, sort_key timestamp (find_messages cid w), sugg), w')"
  using assms by (simp add: get_conversation_def Let_def split_beta)

lemma export_conversation_cases:
  assumes "export_conversation isoformat build cid fmt w = (Inr resp, w')"
  shows "\<exists>conv. find (\<lambda>c. conv_id c = cid) (conversations w) = Some conv
         \<and> (resp = JsonExport conv (sort_key timestamp (find_messages cid w))
            \<or> resp = MarkdownExport
                 (markdown_content isoformat conv (sort_key timestamp (find_messages cid w)))
            \<or> (\<exists>path mt fn. resp = FileResponse path mt fn
                 \<and> build path (pdf_story conv (sort_key timestamp (find_messages cid w))) = None))"
  using assms
  by (auto simp: export_conversation_def Let_def split: option.splits if_splits)

text \<open>
  C6. The messages returned by \<^verbatim>\<open>get_conversation\<close>, by
  \<^verbatim>\<open>get_shared_conversation\<close> and by \<^verbatim>\<open>export_conversation\<close> (as the list of the
  JSON body, or as the list the markdown text and the PDF story are rendered from) are in
  non-decreasing order of their timestamps, and are the messages the capped find returned.
\<close>

theorem reads_sorted:
  "(\<forall>conv. find (\<lambda>c. conv_id c = cid) (conversations w) = Some conv \<longrightarrow>
      (\<exists>msgs sugg w'. get_conversation llm uuid cid w = (Inr (conv, msgs, sugg), w')
         \<and> sorted (map timestamp msgs) \<and> set msgs = set (find_messages cid w)))
   \<and> (\<forall>conv. find (\<lambda>c. share_token c = Some token) (conversations w) = Some conv \<longrightarrow>
      (\<exists>msgs. get_shared_conversation token w = (Inr (conv, msgs), w)
         \<and> sorted (map timestamp msgs) \<and> set msgs = set (find_messages (conv_id conv) w)))
   \<and> (\<forall>resp w'. export_conversation isoformat build cid fmt w = (Inr resp, w') \<longrightarrow>
      (\<exists>conv msgs. sorted (map timestamp msgs) \<and> set msgs = set (find_messages cid w)
         \<and> (resp = JsonExport conv msgs
            \<or> resp = MarkdownExport (markdown_content isoformat conv msgs)
            \<or> (\<exists>path mt fn. resp = FileResponse path mt fn
                 \<and> build path (pdf_story conv msgs) = None))))"
proof -
  have srt: "sorted (map timestamp (sort_key timestamp xs))
             \<and> set (sort_key timestamp xs) = set xs" for xs :: "message list"
    by simp
  have g: "\<exists>msgs sugg w'. get_conversation llm uuid cid w = (Inr (conv, msgs, sugg), w')
         \<and> sorted (map timestamp msgs) \<and> set msgs = set (find_messages cid w)"
    if "find (\<lambda>c. conv_id c = cid) (conversations w) = Some conv" for conv
    using get_conversation_found [OF that, of llm uuid] srt by blast
  have s: "\<exists>msgs. get_shared_conversation token w = (Inr (conv, msgs), w)
         \<and> sorted (map timestamp msgs) \<and> set msgs = set (find_messages (conv_id conv) w)"
    if "find (\<lambda>c. share_token c = Some token) (conversations w) = Some conv" for conv
    using that srt by (simp add: get_shared_conversation_def)
  have e: "\<exists>conv msgs. sorted (map timestamp msgs) \<and> set msgs = set (find_messages cid w)
         \<and> (resp = JsonExport conv msgs
            \<or> resp = MarkdownExport (markdown_content isoformat conv msgs)
            \<or> (\<exists>path mt fn. resp = FileResponse path mt fn
                 \<and> build path (pdf_story conv msgs) = None))"
    if "export_conversation isoformat build cid fmt w = (Inr resp, w')" for resp w'
    using export_conversation_cases [OF that] srt by blast
  from g s e show ?thesis by blast
qed

theorem reads_sorted_witness:
  "(\<exists>conv sugg w'. get_conversation (\<lambda>req. Inr ''Q'') ''u'' ''c1'' demo_unordered
       = (Inr (conv,
               [\<lparr>msg_id = ''m1'', conversation_id = ''c1'', role = ''user'', content = ''A'',
                 timestamp = 11, reactions = [], bookmarked = False\<rparr>,
                \<lparr>msg_id = ''m2'', conversation_id = ''c1'', role = ''assistant'', content = ''B'',
                 timestamp = 12, reactions = [], bookmarked = False\<rparr>], sugg), w'))
   \<and> (\<exists>conv msgs. get_shared_conversation ''tok'' demo_unordered
                      = (Inr (conv, msgs), demo_unordered)
         \<and> map timestamp msgs = [11, 12])
   \<and> (\<exists>conv msgs. export_conversation (\<lambda>t. str_nat t) (\<lambda>p s. None) ''c1'' ''json'' demo_unordered
                      = (Inr (JsonExport conv msgs), demo_unordered)
         \<and> map timestamp msgs = [11, 12])"
  using reads_sorted [of "''c1''" demo_unordered "\<lambda>req. Inr ''Q''" "''u''" "''tok''"
          "\<lambda>t. str_nat t" "\<lambda>p s. None" "''json''"]
  by (simp add: demo_unordered_def get_conversation_def get_shared_conversation_def
      export_conversation_def find_messages_def to_list_def Let_def)

section \<open>The cross-session query\<close>

text \<open>
  C7. With no \<^verbatim>\<open>ended\<close> conversation in the store, \<^verbatim>\<open>query_conversations\<close> returns
  the fixed answer with no references and no suggestions, and the store and the gateway
  log are as before: no request is sent. Otherwise exactly one request is sent and the
  references are the first five ended conversations in store order.
\<close>

theorem query_conversations_cases:
  "(filter (\<lambda>c. status c = ''ended'') (conversations w) = [] \<longrightarrow>
      query_conversations llm uuid q w
        = (Inr \<lparr>answer = ''No past conversations found to analyze.'',
                 relevant_conversations = [], suggestions = []\<rparr>, w))
   \<and> (filter (\<lambda>c. status c = ''ended'') (conversations w) \<noteq> [] \<longrightarrow>
      (\<exists>r. query_conversations llm uuid q w
              = (Inr r,
                 w\<lparr>llm_calls := llm_calls w @
                     [query_request uuid q
                        (take 1000 (filter (\<lambda>c. status c = ''ended'') (conversations w)))]\<rparr>)
         \<and> relevant_conversations r
             = take 5 (filter (\<lambda>c. status c = ''ended'') (conversations w))
         \<and> suggestions r = []))"
  by (simp add: query_conversations_def to_list_def chat_send_def Let_def)

theorem query_conversations_cases_witness:
  "query_conversations (\<lambda>req. Inr ''Nothing'') ''u'' ''What?'' demo_active
     = (Inr \<lparr>answer = ''No past conversations found to analyze.'',
              relevant_conversations = [], suggestions = []\<rparr>, demo_active)
   \<and> (\<exists>r. query_conversations (\<lambda>req. Inr ''Greetings'') ''u'' ''What?'' demo_ended
             = (Inr r,
                demo_ended\<lparr>llm_calls := llm_calls demo_ended @
                    [query_request ''u'' ''What?'' (conversations demo_ended)]\<rparr>)
        \<and> relevant_conversations r = conversations demo_ended
        \<and> suggestions r = [])"
  using query_conversations_cases [of demo_active "\<lambda>req. Inr ''Nothing''" "''u''" "''What?''"]
        query_conversations_cases [of demo_ended "\<lambda>req. Inr ''Greetings''" "''u''" "''What?''"]
  by (simp add: demo_active_conversations demo_created_eq demo_ended_conversations)

section \<open>Suggestions\<close>

lemma length_parse_suggestions: "length (parse_suggestions response) \<le> 3"
  by (simp add: parse_suggestions_def)

lemma parse_suggestions_eq:
  "parse_suggestions response =
     take 3 (filter (\<lambda>l. l \<noteq> [] \<and> \<not> startswith l ''#'') (map strip (str_split nl response)))"
  by (simp add: parse_suggestions_def filter_map comp_def)

text \<open>
  C8, as amended. \<^verbatim>\<open>generate_suggestions\<close> returns at most three texts. For an empty
  history they are the three fixed prompts and no request is sent. Otherwise one request
  is sent; of its response, split on line feeds, every line is trimmed of surrounding
  whitespace, the lines that are then empty or begin with \<^verbatim>\<open>#\<close> are dropped, and the
  first three of the trimmed lines are returned; when the gateway raises, the result is
  the empty list.
\<close>

theorem generate_suggestions_spec:
  "length (fst (generate_suggestions llm uuid h w)) \<le> 3
   \<and> (h = [] \<longrightarrow>
        generate_suggestions llm uuid h w
          = ([''Tell me about yourself'', ''What can you help me with?'',
              ''Explain a complex topic simply''], w))
   \<and> (h \<noteq> [] \<longrightarrow>
        snd (generate_suggestions llm uuid h w)
          = w\<lparr>llm_calls := llm_calls w @ [suggestions_request uuid h]\<rparr>
        \<and> (\<forall>response. llm (suggestions_request uuid h) = Inr response \<longrightarrow>
              fst (generate_suggestions llm uuid h w)
                = take 3 (filter (\<lambda>l. l \<noteq> [] \<and> \<not> startswith l ''#'')
                            (map strip (str_split nl response))))
        \<and> (\<forall>e. llm (suggestions_request uuid h) = Inl e \<longrightarrow>
              fst (generate_suggestions llm uuid h w) = []))"
proof -
  have len: "length (fst (generate_suggestions llm uuid h w)) \<le> 3"
  proof (cases "h = []")
    case True
    then show ?thesis by (simp add: generate_suggestions_def default_suggestions_def)
  next
    case False
    then show ?thesis
      by (simp add: generate_suggestions_eq length_parse_suggestions split: sum.splits)
  qed
  have dflt: "generate_suggestions llm uuid h w
          = ([''Tell me about yourself'', ''What can you help me with?'',
              ''Explain a complex topic simply''], w)" if "h = []"
    using that by (simp add: generate_suggestions_def default_suggestions_def)
  have call: "snd (generate_suggestions llm uuid h w)
          = w\<lparr>llm_calls := llm_calls w @ [suggestions_request uuid h]\<rparr>" if "h \<noteq> []"
    using that by (simp add: generate_suggestions_eq)
  have ok: "fst (generate_suggestions llm uuid h w)
                = take 3 (filter (\<lambda>l. l \<noteq> [] \<and> \<not> startswith l ''#'')
                            (map strip (str_split nl response)))"
    if "h \<noteq> []" and "llm (suggestions_request uuid h) = Inr response" for response
    using that by (simp add: generate_suggestions_eq parse_suggestions_eq)
  have bad: "fst (generate_suggestions llm uuid h w) = []"
    if "h \<noteq> []" and "llm (suggestions_request uuid h) = Inl e" for e
    using that by (simp add: generate_suggestions_eq)
  from len dflt call ok bad show ?thesis by blast
qed

lemma demo_response_lines:
  "str_split nl demo_response = ['' # note'', '' Q1 '', [], ''Q2'', ''Q3'', ''Q4'']"
  by code_simp

lemma demo_response_trimmed:
  "take 3 (filter (\<lambda>l. l \<noteq> [] \<and> \<not> startswith l ''#'') (map strip (str_split nl demo_response)))
     = [''Q1'', ''Q2'', ''Q3'']"
  by code_simp

lemma demo_response_parsed: "parse_suggestions demo_response = [''Q1'', ''Q2'', ''Q3'']"
  by code_simp

lemma demo_response_spec_parsed:
  "spec_parse_suggestions demo_response = ['' # note'', '' Q1 '', ''Q2'']"
  by code_simp

theorem generate_suggestions_spec_witness:
  "generate_suggestions (\<lambda>req. Inr demo_response) ''u'' [] empty_world
     = ([''Tell me about yourself'', ''What can you help me with?'',
         ''Explain a complex topic simply''], empty_world)
   \<and> fst (generate_suggestions (\<lambda>req. Inr demo_response) ''u'' [(''user'', ''Hi'')] empty_world)
       = [''Q1'', ''Q2'', ''Q3'']
   \<and> fst (generate_suggestions (\<lambda>req. Inl ''timeout'') ''u'' [(''user'', ''Hi'')] empty_world) = []"
  using generate_suggestions_spec [of "\<lambda>req. Inr demo_response" "''u''" "[]" empty_world]
    generate_suggestions_spec
      [of "\<lambda>req. Inr demo_response" "''u''" "[(''user'', ''Hi'')]" empty_world]
    generate_suggestions_spec [of "\<lambda>req. Inl ''timeout''" "''u''" "[(''user'', ''Hi'')]" empty_world]
  by (simp add: demo_response_trimmed)

text \<open>
  C8, as stated. Without the trimming the specification's wording would keep the indented
  comment line and return the padded line as it is; the code returns neither.
\<close>

theorem parse_suggestions_counterexample:
  "parse_suggestions demo_response = [''Q1'', ''Q2'', ''Q3'']
   \<and> spec_parse_suggestions demo_response = ['' # note'', '' Q1 '', ''Q2'']
   \<and> parse_suggestions demo_response \<noteq> spec_parse_suggestions demo_response"
  by (simp add: demo_response_parsed demo_response_spec_parsed)

section \<open>Export formats\<close>

text \<open>
  C9, as amended. For an existing conversation, \<^verbatim>\<open>export_conversation\<close> answers 400
  \<^verbatim>\<open>Invalid export format\<close> (the specification's InvalidArgument) for every selector
  other than \<^verbatim>\<open>json\<close>, \<^verbatim>\<open>markdown\<close> and \<^verbatim>\<open>pdf\<close>, among them \<^verbatim>\<open>xml\<close>, and never for
  these three: \<^verbatim>\<open>json\<close> and \<^verbatim>\<open>markdown\<close> succeed, and \<^verbatim>\<open>pdf\<close> succeeds unless the PDF
  library raises.
\<close>

theorem export_conversation_format:
  assumes "find (\<lambda>c. conv_id c = cid) (conversations w) = Some conv"
  shows "(fmt \<notin> {''json'', ''markdown'', ''pdf''} \<longrightarrow>
            export_conversation isoformat build cid fmt w
              = (Inl (HTTPException 400 ''Invalid export format''), w))
       \<and> (fmt \<in> {''json'', ''markdown'', ''pdf''} \<longrightarrow>
            fst (export_conversation isoformat build cid fmt w)
              \<noteq> Inl (HTTPException 400 ''Invalid export format''))
       \<and> export_conversation isoformat build cid ''xml'' w
              = (Inl (HTTPException 400 ''Invalid export format''), w)
       \<and> (\<exists>r. export_conversation isoformat build cid ''json'' w = (Inr r, w))
       \<and> (\<exists>r. export_conversation isoformat build cid ''markdown'' w = (Inr r, w))
       \<and> (\<exists>r. export_conversation isoformat build cid ''pdf'' w
                 = ((case build (''/tmp/conversation_'' @ cid @ ''.pdf'')
                            (pdf_story conv (sort_key timestamp (find_messages cid w))) of
                       None \<Rightarrow> Inr r
                     | Some e \<Rightarrow> Inl (Unhandled e)), w))"
proof -
  have other: "export_conversation isoformat build cid fmt w
              = (Inl (HTTPException 400 ''Invalid export format''), w)"
    if "fmt \<notin> {''json'', ''markdown'', ''pdf''}"
    using that assms by (simp add: export_conversation_def Let_def)
  have known: "fst (export_conversation isoformat build cid fmt w)
              \<noteq> Inl (HTTPException 400 ''Invalid export format'')"
    if "fmt \<in> {''json'', ''markdown'', ''pdf''}"
    using that assms by (auto simp: export_conversation_def Let_def split: option.splits)
  have xml: "export_conversation isoformat build cid ''xml'' w
              = (Inl (HTTPException 400 ''Invalid export format''), w)"
    using assms by (simp add: export_conversation_def Let_def)
  have json: "\<exists>r. export_conversation isoformat build cid ''json'' w = (Inr r, w)"
    using assms by (simp add: export_conversation_def Let_def)
  have md: "\<exists>r. export_conversation isoformat build cid ''markdown'' w = (Inr r, w)"
    using assms by (simp add: export_conversation_def Let_def)
  have pdf: "\<exists>r. export_conversation isoformat build cid ''pdf'' w
                 = ((case build (''/tmp/conversation_'' @ cid @ ''.pdf'')
                            (pdf_story conv (sort_key timestamp (find_messages cid w))) of
                       None \<Rightarrow> Inr r
                     | Some e \<Rightarrow> Inl (Unhandled e)), w)"
    using assms by (simp add: export_conversation_def Let_def split: option.splits)
  from other known xml json md pdf show ?thesis by simp
qed

theorem export_conversation_format_witness:
  "export_conversation str_nat build_ok ''c1'' ''xml'' demo_active
     = (Inl (HTTPException 400 ''Invalid export format''), demo_active)
   \<and> export_conversation str_nat build_ok ''c1'' ''document'' demo_active
     = (Inl (HTTPException 400 ''Invalid export format''), demo_active)
   \<and> export_conversation str_nat build_ok ''c1'' ''pdf'' demo_active
     = (Inr (FileResponse ''/tmp/conversation_c1.pdf'' ''application/pdf'' ''Demo.pdf''),
        demo_active)"
  using export_conversation_format
          [of "''c1''" demo_active
              "\<lparr>conv_id = ''c1'', title = ''Demo'', status = ''active'', summary = None,
                start_time = 10, end_time = None, share_token = None\<rparr>"
              "''xml''" str_nat build_ok]
        export_conversation_format
          [of "''c1''" demo_active
              "\<lparr>conv_id = ''c1'', title = ''Demo'', status = ''active'', summary = None,
                start_time = 10, end_time = None, share_token = None\<rparr>"
              "''document''" str_nat build_ok]
  by (simp add: demo_active_conversations demo_created_eq export_conversation_def build_ok_def
      Let_def)

text \<open>
  C9, as stated. The selector \<^verbatim>\<open>document\<close> of the specification's list is answered with
  400 \<^verbatim>\<open>Invalid export format\<close>: the paginated format is selected by \<^verbatim>\<open>pdf\<close>.
\<close>

theorem export_conversation_document_counterexample:
  "''document'' \<in> spec_formats
   \<and> export_conversation str_nat build_ok ''c1'' ''document'' demo_active
       = (Inl (HTTPException 400 ''Invalid export format''), demo_active)"
  by (simp add: spec_formats_def demo_active_conversations demo_created_eq
      export_conversation_def Let_def)

section \<open>The cap of 1000 records\<close>

lemma filter_take_filter: "filter p (take n (filter p xs)) = take n (filter p xs)"
  by (rule filter_True) (auto dest: in_set_takeD)

lemma take_take_append: "take n (take n xs @ ys) = take n (xs @ ys)"
  by (simp add: min_def)

lemma capped_append:
  "take n (filter p (take n (filter p xs) @ ys)) = take n (filter p (xs @ ys))"
  by (simp only: filter_append filter_take_filter take_take_append)

lemma find_messages_capped: "find_messages cid (capped_messages cid w) = find_messages cid w"
  by (simp add: find_messages_def capped_messages_def to_list_def filter_take_filter)

lemma find_messages_capped_append:
  "find_messages cid (capped_messages cid w
       \<lparr>messages := messages (capped_messages cid w) @ [m]\<rparr>)
   = find_messages cid (w\<lparr>messages := messages w @ [m]\<rparr>)"
  by (simp add: find_messages_def capped_messages_def to_list_def capped_append
      del: filter_append take_append)

lemma length_find_messages: "length (find_messages cid w) \<le> 1000"
  by (simp add: find_messages_def to_list_def)

lemma capped_messages_simps:
  "conversations (capped_messages cid w) = conversations w"
  "llm_calls (capped_messages cid w) = llm_calls w"
  by (simp_all add: capped_messages_def)

lemma fst_generate_suggestions:
  "fst (generate_suggestions llm u h w) = fst (generate_suggestions llm u h w')"
  by (simp add: generate_suggestions_def chat_send_def split: sum.splits)

lemma get_conversations_capped:
  "fst (get_conversations (capped_conversations (\<lambda>c. True) w)) = fst (get_conversations w)"
  by (simp add: get_conversations_def capped_conversations_def to_list_def)

lemma query_conversations_capped:
  "fst (query_conversations llm u q (capped_conversations (\<lambda>c. status c = ''ended'') w))
     = fst (query_conversations llm u q w)"
  "llm_calls (snd (query_conversations llm u q
                     (capped_conversations (\<lambda>c. status c = ''ended'') w)))
     = llm_calls (snd (query_conversations llm u q w))"
  by (simp_all add: query_conversations_def capped_conversations_def to_list_def
      filter_take_filter chat_send_def Let_def)

lemma get_conversation_capped:
  "fst (get_conversation llm u cid (capped_messages cid w)) = fst (get_conversation llm u cid w)"
proof (cases "find (\<lambda>c. conv_id c = cid) (conversations w)")
  case None
  then show ?thesis by (simp add: get_conversation_def capped_messages_simps)
next
  case (Some conv)
  then show ?thesis
    using fst_generate_suggestions
            [of llm u "map (\<lambda>m. (role m, content m)) (sort_key timestamp (find_messages cid w))"
                "capped_messages cid w" w]
    by (simp add: get_conversation_def capped_messages_simps find_messages_capped Let_def
        split_beta)
qed

lemma get_shared_conversation_capped:
  assumes "find (\<lambda>c. share_token c = Some token) (conversations w) = Some conv"
  shows "fst (get_shared_conversation token (capped_messages (conv_id conv) w))
           = fst (get_shared_conversation token w)"
  using assms
  by (simp add: get_shared_conversation_def capped_messages_simps find_messages_capped)

lemma export_conversation_capped:
  "fst (export_conversation isoformat build cid fmt (capped_messages cid w))
     = fst (export_conversation isoformat build cid fmt w)"
  by (simp add: export_conversation_def capped_messages_simps find_messages_capped Let_def
      split: option.splits)

lemma end_conversation_capped:
  "fst (end_conversation llm now cid (capped_messages cid w))
     = fst (end_conversation llm now cid w)"
  "llm_calls (snd (end_conversation llm now cid (capped_messages cid w)))
     = llm_calls (snd (end_conversation llm now cid w))"
  by (simp_all add: end_conversation_def capped_messages_simps find_messages_capped
      chat_send_def Let_def split: option.splits)

lemma send_message_capped:
  "fst (send_message llm u1 t1 u2 t2 cid x (capped_messages cid w))
     = fst (send_message llm u1 t1 u2 t2 cid x w)"
  "llm_calls (snd (send_message llm u1 t1 u2 t2 cid x (capped_messages cid w)))
     = llm_calls (snd (send_message llm u1 t1 u2 t2 cid x w))"
proof -
  show "fst (send_message llm u1 t1 u2 t2 cid x (capped_messages cid w))
     = fst (send_message llm u1 t1 u2 t2 cid x w)"
  proof (cases "find (\<lambda>c. conv_id c = cid) (conversations w)")
    case None
    then show ?thesis by (simp add: send_message_def capped_messages_simps)
  next
    case (Some conv)
    show ?thesis
    proof (cases "status conv = ''active''")
      case False
      with Some show ?thesis by (simp add: send_message_def capped_messages_simps)
    next
      case True
      with Some show ?thesis
        by (simp add: send_message_active capped_messages_simps find_messages_capped_append
            Let_def)
    qed
  qed
  show "llm_calls (snd (send_message llm u1 t1 u2 t2 cid x (capped_messages cid w)))
     = llm_calls (snd (send_message llm u1 t1 u2 t2 cid x w))"
  proof (cases "find (\<lambda>c. conv_id c = cid) (conversations w)")
    case None
    then show ?thesis by (simp add: send_message_def capped_messages_simps)
  next
    case (Some conv)
    show ?thesis
    proof (cases "status conv = ''active''")
      case False
      with Some show ?thesis by (simp add: send_message_def capped_messages_simps)
    next
      case True
      with Some show ?thesis
        by (simp add: send_message_active capped_messages_simps find_messages_capped_append
            Let_def)
    qed
  qed
qed

text \<open>
  C10. Every read of many records sees at most the first 1000 matching records in store
  order: each endpoint returns the same response, and sends the same request to the
  gateway, as on the store cut down to those records. This holds for the listing and the
  cross-session query (conversations) and for get, get by share token, export, reply
  generation and summarization (messages of the conversation); the listing and the found
  messages have at most 1000 entries.
\<close>

theorem reads_capped:
  "fst (get_conversations (capped_conversations (\<lambda>c. True) w)) = fst (get_conversations w)
   \<and> (\<exists>cs. fst (get_conversations w) = Inr cs \<and> length cs \<le> 1000)
   \<and> fst (query_conversations llm u q (capped_conversations (\<lambda>c. status c = ''ended'') w))
       = fst (query_conversations llm u q w)
   \<and> llm_calls (snd (query_conversations llm u q
                       (capped_conversations (\<lambda>c. status c = ''ended'') w)))
       = llm_calls (snd (query_conversations llm u q w))
   \<and> fst (get_conversation llm u cid (capped_messages cid w))
       = fst (get_conversation llm u cid w)
   \<and> (\<forall>conv. find (\<lambda>c. share_token c = Some token) (conversations w) = Some conv \<longrightarrow>
         fst (get_shared_conversation token (capped_messages (conv_id conv) w))
           = fst (get_shared_conversation token w))
   \<and> fst (export_conversation isoformat build cid fmt (capped_messages cid w))
       = fst (export_conversation isoformat build cid fmt w)
   \<and> fst (send_message llm u1 t1 u2 t2 cid x (capped_messages cid w))
       = fst (send_message llm u1 t1 u2 t2 cid x w)
   \<and> llm_calls (snd (send_message llm u1 t1 u2 t2 cid x (capped_messages cid w)))
       = llm_calls (snd (send_message llm u1 t1 u2 t2 cid x w))
   \<and> fst (end_conversation llm now cid (capped_messages cid w))
       = fst (end_conversation llm now cid w)
   \<and> llm_calls (snd (end_conversation llm now cid (capped_messages cid w)))
       = llm_calls (snd (end_conversation llm now cid w))
   \<and> length (find_messages cid w) \<le> 1000"
proof -
  have len: "\<exists>cs. fst (get_conversations w) = Inr cs \<and> length cs \<le> 1000"
    by (simp add: get_conversations_def sort_desc_def to_list_def)
  have shared: "\<forall>conv. find (\<lambda>c. share_token c = Some token) (conversations w) = Some conv \<longrightarrow>
         fst (get_shared_conversation token (capped_messages (conv_id conv) w))
           = fst (get_shared_conversation token w)"
    using get_shared_conversation_capped by blast
  show ?thesis
    by (intro conjI get_conversations_capped len query_conversations_capped
        get_conversation_capped shared export_conversation_capped send_message_capped
        end_conversation_capped length_find_messages)
qed

theorem reads_capped_witness:
  "\<exists>conv msgs. fst (get_shared_conversation ''tok'' demo_full) = Inr (conv, msgs)
      \<and> length msgs = 1000
      \<and> set msgs = {\<lparr>msg_id = ''m1'', conversation_id = ''c1'', role = ''user'', content = ''A'',
                       timestamp = 11, reactions = [], bookmarked = False\<rparr>}"
  using reads_capped [of demo_full "\<lambda>req. Inr ''R''" "''u''" "''q''" "''c1''" "''tok''"
          str_nat build_ok "''json''" "''m3''" 30 "''m4''" 31 "''More''" 40]
  by (simp add: demo_full_def capped_messages_def get_shared_conversation_def
      find_messages_def to_list_def)

end
